theory Spec2Isabelle
  imports Main
begin

section \<open>WorkflowDashboard.jsx: the agent roster and the status cards\<close>

text \<open>
  \<^verbatim>\<open>const AGENTS = [ { id: 'error_detector', name: 'Error Detector', icon: ... }, ... ]\<close>
  The icons are single emoji; each is kept as its Unicode code point.
\<close>

record agent =
  agent_id :: string
  agent_name :: string
  agent_icon :: nat

definition AGENTS :: "agent list" where
  "AGENTS =
    [\<lparr>agent_id = ''error_detector'', agent_name = ''Error Detector'', agent_icon = 128269\<rparr>,
     \<lparr>agent_id = ''complexity_analyzer'', agent_name = ''Complexity Analyzer'', agent_icon = 128202\<rparr>,
     \<lparr>agent_id = ''memory_profiler'', agent_name = ''Memory Profiler'', agent_icon = 128190\<rparr>,
     \<lparr>agent_id = ''security_analyzer'', agent_name = ''Security Analyzer'', agent_icon = 128274\<rparr>,
     \<lparr>agent_id = ''quality_checker'', agent_name = ''Quality Checker'', agent_icon = 10024\<rparr>,
     \<lparr>agent_id = ''algorithm_visualizer'', agent_name = ''Algorithm Visualizer'', agent_icon = 127916\<rparr>,
     \<lparr>agent_id = ''fix_suggester'', agent_name = ''Fix Suggester'', agent_icon = 128295\<rparr>]"

text \<open>
  The \<^verbatim>\<open>statuses\<close> prop is an object from agent id to a status string.
  \<^verbatim>\<open>statuses[agentId] || 'pending'\<close>: a missing key reads as undefined and the empty
  string is falsy, so both give \<^verbatim>\<open>'pending'\<close>.
\<close>

definition getStatus :: "(string \<rightharpoonup> string) \<Rightarrow> string \<Rightarrow> string" where
  "getStatus statuses agentId =
     (case statuses agentId of
        None \<Rightarrow> ''pending''
      | Some s \<Rightarrow> if s = [] then ''pending'' else s)"

definition getStatusClass :: "string \<Rightarrow> string" where
  "getStatusClass status =
     (if status = ''completed'' then ''status-completed''
      else if status = ''running'' then ''status-running''
      else if status = ''error'' then ''status-error''
      else ''status-pending'')"

text \<open>\<^verbatim>\<open>getStatusIcon\<close>: a check mark, an hourglass, a ballot cross or a white circle, each
  kept as its Unicode code point.\<close>

definition getStatusIcon :: "string \<Rightarrow> nat" where
  "getStatusIcon status =
     (if status = ''completed'' then 10003
      else if status = ''running'' then 9203
      else if status = ''error'' then 10007
      else 9675)"

text \<open>One card of the grid: the agent, the status it shows with its icon, and whether the
  progress bar is drawn.\<close>

record agent_card =
  card_agent :: agent
  card_class :: string
  card_status_icon :: nat
  card_status :: string
  card_progress :: bool

definition WorkflowDashboard :: "(string \<rightharpoonup> string) \<Rightarrow> agent_card list" where
  "WorkflowDashboard statuses =
     map (\<lambda>a. let status = getStatus statuses (agent_id a)
               in \<lparr>card_agent = a,
                   card_class = ''agent-card '' @ getStatusClass status,
                   card_status_icon = getStatusIcon status,
                   card_status = status,
                   card_progress = (status = ''running'')\<rparr>) AGENTS"

section \<open>CodeEditor.jsx and the language select of App.jsx\<close>

text \<open>
  \<^verbatim>\<open>langMap[lang] || 'python'\<close> reads an object literal. A key that is not an own
  property is looked up on \<^verbatim>\<open>Object.prototype\<close>, whose members are functions (or, for
  \<^verbatim>\<open>__proto__\<close>, the prototype object): truthy values that \<^verbatim>\<open>||\<close> lets through.
\<close>

datatype js_member = Str string | Inherited string

definition langMap :: "(string \<times> string) list" where
  "langMap =
    [(''python'', ''python''), (''javascript'', ''javascript''),
     (''typescript'', ''typescript''), (''java'', ''java''), (''cpp'', ''cpp''),
     (''c'', ''c''), (''go'', ''go''), (''rust'', ''rust''), (''ruby'', ''ruby''),
     (''php'', ''php'')]"

definition Object_prototype_keys :: "string list" where
  "Object_prototype_keys =
    [''constructor'', ''hasOwnProperty'', ''isPrototypeOf'', ''propertyIsEnumerable'',
     ''toLocaleString'', ''toString'', ''valueOf'', ''__proto__'',
     ''__defineGetter__'', ''__defineSetter__'', ''__lookupGetter__'', ''__lookupSetter__'']"

definition getLanguageMode :: "string \<Rightarrow> js_member" where
  "getLanguageMode lang =
     (case map_of langMap lang of
        Some v \<Rightarrow> if v = [] then Str ''python'' else Str v
      | None \<Rightarrow> if lang \<in> set Object_prototype_keys then Inherited lang else Str ''python'')"

text \<open>The \<^verbatim>\<open><option value=...>\<close> children of the language \<^verbatim>\<open><select>\<close> in App.jsx, with their labels.\<close>

definition language_options :: "(string \<times> string) list" where
  "language_options =
    [(''python'', ''Python''), (''javascript'', ''JavaScript''),
     (''typescript'', ''TypeScript''), (''java'', ''Java''), (''cpp'', ''C++'')]"

text \<open>The language enum of the data model (section 3 of the specification).\<close>

definition language_enum :: "string list" where
  "language_enum =
    [''python'', ''javascript'', ''typescript'', ''java'', ''cpp'', ''c'', ''go'', ''rust'',
     ''ruby'', ''php'']"

section \<open>AlgorithmCanvas.jsx: the frame player\<close>

text \<open>
  The props: \<^verbatim>\<open>const frames = visualization?.frames || []\<close>. An array is truthy even
  when empty, so only a missing visualization or a missing \<^verbatim>\<open>frames\<close> field gives the default.
  The frame type is left open: the player never looks inside a frame to decide where to go.
\<close>

record 'f visualization =
  vis_type :: "string option"
  frames :: "'f list option"

definition canvas_frames :: "'f visualization option \<Rightarrow> 'f list" where
  "canvas_frames v =
     (case v of
        None \<Rightarrow> []
      | Some vis \<Rightarrow> (case frames vis of None \<Rightarrow> [] | Some fs \<Rightarrow> fs))"

text \<open>The three \<^verbatim>\<open>useState\<close> cells. The speed buttons set 0.5, 1 or 2.\<close>

datatype speed_t = Half | One | Two

record canvas_state =
  currentFrame :: nat
  isPlaying :: bool
  speed :: speed_t

definition canvas_init :: canvas_state where
  "canvas_init = \<lparr>currentFrame = 0, isPlaying = False, speed = One\<rparr>"

text \<open>
  The handlers. \<^verbatim>\<open>frames.length - 1\<close> is \<open>-1\<close> for an empty array, so the comparisons are
  written over the integers.
\<close>

definition handleStepForward :: "'f list \<Rightarrow> canvas_state \<Rightarrow> canvas_state" where
  "handleStepForward fs s =
     (if int (currentFrame s) < int (length fs) - 1
      then s\<lparr>currentFrame := currentFrame s + 1\<rparr> else s)"

definition handleStepBack :: "canvas_state \<Rightarrow> canvas_state" where
  "handleStepBack s =
     (if currentFrame s > 0 then s\<lparr>currentFrame := currentFrame s - 1\<rparr> else s)"

definition handleReset :: "canvas_state \<Rightarrow> canvas_state" where
  "handleReset s = s\<lparr>currentFrame := 0, isPlaying := False\<rparr>"

definition handlePlayPause :: "'f list \<Rightarrow> canvas_state \<Rightarrow> canvas_state" where
  "handlePlayPause fs s =
     (let s' = (if int (currentFrame s) \<ge> int (length fs) - 1
                then s\<lparr>currentFrame := 0\<rparr> else s)
      in s'\<lparr>isPlaying := \<not> isPlaying s\<rparr>)"

text \<open>
  One firing of the interval that \<^verbatim>\<open>useEffect\<close> installs. The interval exists only while
  \<^verbatim>\<open>isPlaying && frames.length > 0\<close>; at the last frame it stops the playback and keeps
  the index.
\<close>

definition autoplay_tick :: "'f list \<Rightarrow> canvas_state \<Rightarrow> canvas_state" where
  "autoplay_tick fs s =
     (if isPlaying s \<and> length fs > 0
      then (if int (currentFrame s) \<ge> int (length fs) - 1
            then s\<lparr>isPlaying := False\<rparr>
            else s\<lparr>currentFrame := currentFrame s + 1\<rparr>)
      else s)"

definition slider_change :: "nat \<Rightarrow> canvas_state \<Rightarrow> canvas_state" where
  "slider_change v s = s\<lparr>currentFrame := v\<rparr>"

definition setSpeed :: "speed_t \<Rightarrow> canvas_state \<Rightarrow> canvas_state" where
  "setSpeed x s = s\<lparr>speed := x\<rparr>"

text \<open>
  What the user (or the timer) can do. The controls are drawn only when there are frames. A
  button carrying \<^verbatim>\<open>disabled\<close> fires no click: Step Back is disabled at
  \<^verbatim>\<open>currentFrame === 0\<close>, Step Forward at \<^verbatim>\<open>currentFrame >= frames.length - 1\<close>. The
  slider is a range input with \<^verbatim>\<open>min="0"\<close> and \<^verbatim>\<open>max={frames.length - 1}\<close>, so it reports
  only positions in that range. The timer is not a control: whether it does anything is
  decided in \<open>autoplay_tick\<close>.
\<close>

datatype canvas_event =
    ClickReset | ClickStepBack | ClickPlayPause | ClickStepForward
  | ClickSpeed speed_t | SlideTo nat | Tick

fun enabled :: "'f list \<Rightarrow> canvas_state \<Rightarrow> canvas_event \<Rightarrow> bool" where
  "enabled fs s ClickStepBack = (fs \<noteq> [] \<and> currentFrame s \<noteq> 0)"
| "enabled fs s ClickStepForward =
     (fs \<noteq> [] \<and> \<not> int (currentFrame s) \<ge> int (length fs) - 1)"
| "enabled fs s (SlideTo v) = (fs \<noteq> [] \<and> int v \<le> int (length fs) - 1)"
| "enabled fs s Tick = True"
| "enabled fs s _ = (fs \<noteq> [])"

fun handle :: "'f list \<Rightarrow> canvas_event \<Rightarrow> canvas_state \<Rightarrow> canvas_state" where
  "handle fs ClickReset s = handleReset s"
| "handle fs ClickStepBack s = handleStepBack s"
| "handle fs ClickPlayPause s = handlePlayPause fs s"
| "handle fs ClickStepForward s = handleStepForward fs s"
| "handle fs (ClickSpeed x) s = setSpeed x s"
| "handle fs (SlideTo v) s = slider_change v s"
| "handle fs Tick s = autoplay_tick fs s"

text \<open>
  A sequence of operations, performed in order. \<open>None\<close>: the sequence cannot be performed,
  because one of its controls is disabled when its turn comes.
\<close>

fun perform :: "'f list \<Rightarrow> canvas_event list \<Rightarrow> canvas_state \<Rightarrow> canvas_state option" where
  "perform fs [] s = Some s"
| "perform fs (e # es) s = (if enabled fs s e then perform fs es (handle fs e s) else None)"

text \<open>
  What is drawn. \<^verbatim>\<open>if (!visualization || !frames.length)\<close> returns the placeholder;
  otherwise \<^verbatim>\<open>const frame = frames[currentFrame]\<close>, which is undefined (\<open>None\<close>) out of
  range.
\<close>

datatype 'f canvas_view = NoVisualization | ShowFrame "'f option"

definition AlgorithmCanvas :: "'f visualization option \<Rightarrow> canvas_state \<Rightarrow> 'f canvas_view" where
  "AlgorithmCanvas v s =
     (let fs = canvas_frames v in
      if v = None \<or> length fs = 0 then NoVisualization
      else ShowFrame (if currentFrame s < length fs then Some (fs ! currentFrame s) else None))"

section \<open>ResultsPanel.jsx\<close>

text \<open>
  The parsed response, as far as the components read it. Every field may be missing from the
  JSON, so every field is optional; a field that is present has the type the data model gives
  it. The \<^verbatim>\<open>agent_results\<close> and \<^verbatim>\<open>summary.complexity\<close> parts of the panel are not
  modelled: no property below depends on them.
\<close>

record summary_json =
  total_findings :: "int option"
  critical_issues :: "int option"
  warnings :: "int option"
  quality_score :: "int option"

record 'v results_json =
  status :: "string option"
  message :: "string option"
  summary :: "summary_json option"
  visualizations :: "'v list option"

text \<open>\<^verbatim>\<open>x || 0\<close> on a number that may be missing.\<close>

definition or_zero :: "int option \<Rightarrow> int" where
  "or_zero x = (case x of None \<Rightarrow> 0 | Some n \<Rightarrow> if n = 0 then 0 else n)"

text \<open>
  \<^verbatim>\<open>getSeverityClass(count)\<close>: with \<^verbatim>\<open>count\<close> undefined both comparisons are false.
\<close>

definition getSeverityClass :: "int option \<Rightarrow> string" where
  "getSeverityClass count =
     (if count = Some 0 then ''severity-success''
      else if (case count of None \<Rightarrow> False | Some n \<Rightarrow> n \<le> 5) then ''severity-warning''
      else ''severity-error'')"

record summary_cards =
  card_total :: int
  card_critical :: int
  card_critical_class :: string
  card_warnings :: int
  card_warnings_class :: string
  card_quality :: int

text \<open>
  The panel is the failure box, the result view, or nothing at all: reading
  \<^verbatim>\<open>summary.total_findings\<close> with \<^verbatim>\<open>summary\<close> undefined throws a TypeError while
  rendering.
\<close>

datatype panel = FailurePanel string | ResultsView summary_cards | RenderThrows

definition ResultsPanel :: "'v results_json option \<Rightarrow> panel" where
  "ResultsPanel results =
     (case results of
        None \<Rightarrow> FailurePanel ''An error occurred during analysis''
      | Some r \<Rightarrow>
          if status r = Some ''error''
          then FailurePanel
                 (case message r of
                    None \<Rightarrow> ''An error occurred during analysis''
                  | Some m \<Rightarrow> if m = [] then ''An error occurred during analysis'' else m)
          else (case summary r of
                  None \<Rightarrow> RenderThrows
                | Some sm \<Rightarrow>
                    ResultsView
                      \<lparr>card_total = or_zero (total_findings sm),
                       card_critical = or_zero (critical_issues sm),
                       card_critical_class = getSeverityClass (critical_issues sm),
                       card_warnings = or_zero (warnings sm),
                       card_warnings_class = getSeverityClass (warnings sm),
                       card_quality = or_zero (quality_score sm)\<rparr>))"

section \<open>App.jsx: the analyze operation and what is put on screen\<close>

record 'v app_state =
  code :: string
  language :: string
  analyzing :: bool
  results :: "'v results_json option"
  agentStatuses :: "string \<rightharpoonup> string"

text \<open>
  How the two awaited calls of \<^verbatim>\<open>handleAnalyze\<close> can settle: \<^verbatim>\<open>fetch\<close> rejects (network
  failure), \<^verbatim>\<open>response.json()\<close> rejects (the body is not JSON), or the body parses. Both
  rejections carry an Error object, of which the handler reads \<^verbatim>\<open>message\<close>. A body that is
  JSON \<^verbatim>\<open>null\<close> parses to \<open>None\<close>. The HTTP status code is never read.
\<close>

datatype 'v fetch_outcome =
    FetchRejects string
  | JsonRejects string
  | Body "'v results_json option"

definition error_result :: "string \<Rightarrow> 'v results_json" where
  "error_result m =
     \<lparr>status = Some ''error'', message = Some m, summary = None, visualizations = None\<rparr>"

text \<open>The three state updates before the \<^verbatim>\<open>try\<close>.\<close>

definition analyze_start :: "'v app_state \<Rightarrow> 'v app_state" where
  "analyze_start s = s\<lparr>analyzing := True, results := None, agentStatuses := Map.empty\<rparr>"

text \<open>The \<^verbatim>\<open>try\<close>, the \<^verbatim>\<open>catch\<close> and the \<^verbatim>\<open>finally\<close>, once the awaited calls have settled.\<close>

definition analyze_settle :: "'v fetch_outcome \<Rightarrow> 'v app_state \<Rightarrow> 'v app_state" where
  "analyze_settle outcome s =
     (let s' = (case outcome of
                  Body data \<Rightarrow> s\<lparr>results := data\<rparr>
                | FetchRejects m \<Rightarrow> s\<lparr>results := Some (error_result m)\<rparr>
                | JsonRejects m \<Rightarrow> s\<lparr>results := Some (error_result m)\<rparr>)
      in s'\<lparr>analyzing := False\<rparr>)"

definition handleAnalyze :: "'v fetch_outcome \<Rightarrow> 'v app_state \<Rightarrow> 'v app_state" where
  "handleAnalyze outcome s = analyze_settle outcome (analyze_start s)"

text \<open>
  The right panel. The dashboard shows while analyzing; the results panel and the
  visualization section show when \<^verbatim>\<open>results && !analyzing\<close>; the visualization section needs
  \<^verbatim>\<open>results.visualizations && results.visualizations.length > 0\<close> and hands
  \<^verbatim>\<open>results.visualizations[0]\<close> to the one AlgorithmCanvas there is.
\<close>

definition visualization_section :: "'v app_state \<Rightarrow> 'v option" where
  "visualization_section s =
     (case results s of
        None \<Rightarrow> None
      | Some r \<Rightarrow>
          if analyzing s then None
          else (case visualizations r of
                  None \<Rightarrow> None
                | Some vs \<Rightarrow> if length vs > 0 then Some (vs ! 0) else None))"

definition results_section :: "'v app_state \<Rightarrow> panel option" where
  "results_section s =
     (if results s \<noteq> None \<and> \<not> analyzing s then Some (ResultsPanel (results s)) else None)"

definition dashboard_section :: "'v app_state \<Rightarrow> agent_card list option" where
  "dashboard_section s =
     (if analyzing s then Some (WorkflowDashboard (agentStatuses s)) else None)"

text \<open>The shapes the caller's contract speaks of, on the fields the model keeps.\<close>

definition is_error_result :: "'v results_json \<Rightarrow> bool" where
  "is_error_result r = (status r = Some ''error'' \<and> message r \<noteq> None)"

definition is_AnalysisReport :: "'v results_json \<Rightarrow> bool" where
  "is_AnalysisReport r =
     (status r \<noteq> None \<and> visualizations r \<noteq> None \<and>
      (case summary r of
         None \<Rightarrow> False
       | Some sm \<Rightarrow> total_findings sm \<noteq> None \<and> critical_issues sm \<noteq> None \<and>
                    warnings sm \<noteq> None \<and> quality_score sm \<noteq> None))"

section \<open>The analysis core behind the endpoint\<close>

text \<open>
  The sources hold the presentation layer only. The backend that the front end calls
  (\<^verbatim>\<open>backend/app.py\<close>, \<^verbatim>\<open>backend/agents/\<close>, \<^verbatim>\<open>backend/orchestrator/workflow_manager.py\<close>)
  is absent, so its parts are written down here from the specification, each marked as such.
\<close>

subsection \<open>Data model\<close>

text \<open>Modelled from the spec: the severity enum of a Finding (section 3); the agents that
  produce findings are missing.\<close>

datatype severity = Sev_info | Sev_warning | Sev_error | Sev_critical

text \<open>Modelled from the spec: the Finding of section 3,
  \<^verbatim>\<open>{severity, message, line: optional integer >= 1, suggestion, code_example}\<close>; the agents
  that produce findings are missing.\<close>

record Finding =
  f_severity :: severity
  f_message :: string
  f_line :: "nat option"
  f_suggestion :: "string option"
  f_code_example :: "string option"

text \<open>Modelled from the spec: the status enum of an AgentResult (section 3); the agent
  contract is missing.\<close>

datatype agent_status = Agent_completed | Agent_error

text \<open>Modelled from the spec: the AgentResult of section 3,
  \<^verbatim>\<open>{agent_id, findings, status, error_detail}\<close>; the agent contract is missing.\<close>

record AgentResult =
  r_agent_id :: string
  r_findings :: "Finding list"
  r_status :: agent_status
  r_error_detail :: "string option"

text \<open>Modelled from the spec: the run states of section 4.4,
  \<^verbatim>\<open>PENDING -> RUNNING -> {COMPLETED, PARTIAL, FAILED}\<close>; the orchestrator is missing.\<close>

datatype run_state = PENDING | RUNNING | COMPLETED | PARTIAL | FAILED

text \<open>Modelled from the spec: the states of one agent task (section 4.4),
  \<^verbatim>\<open>PENDING -> RUNNING -> {COMPLETED, ERRORED}\<close>; the orchestrator is missing.\<close>

datatype task_state = Task_PENDING | Task_RUNNING | Task_COMPLETED | Task_ERRORED

text \<open>Modelled from the spec: the summary of an AnalysisReport (section 3); the aggregator
  is missing.\<close>

record Summary =
  s_total_findings :: int
  s_critical_issues :: int
  s_warnings :: int
  s_quality_score :: int

text \<open>Modelled from the spec: the AnalysisReport of section 3,
  \<^verbatim>\<open>{status, summary, agent_results: mapping agent_id -> AgentResult, visualizations}\<close>;
  the aggregator is missing. The mapping is kept as the list of its entries.\<close>

record 'v AnalysisReport =
  rep_status :: run_state
  rep_summary :: Summary
  rep_agent_results :: "(string \<times> AgentResult) list"
  rep_visualizations :: "'v list"

subsection \<open>Orchestrator: the state of a run\<close>

text \<open>Modelled from the spec: the fixed agent roster of the orchestrator (sections 2 and 4.4),
  which is missing; the ids are those of the dashboard's \<^verbatim>\<open>AGENTS\<close>, in its order.\<close>

definition roster :: "string list" where
  "roster = map agent_id AGENTS"

text \<open>Modelled from the spec: a task is terminal once COMPLETED or ERRORED (section 4.4); the
  orchestrator is missing.\<close>

definition terminal :: "task_state \<Rightarrow> bool" where
  "terminal t = (t = Task_COMPLETED \<or> t = Task_ERRORED)"

text \<open>Modelled from the spec: the orchestrator's run state as section 4.4 words it, over the
  states of the tasks of a run; the orchestrator is missing. "The run reaches COMPLETED
  when all Agent tasks reach a terminal state with zero errors, PARTIAL when all reach terminal
  state with at least one error and at least one success, and FAILED only if every Agent
  errors."\<close>

definition status_of_tasks :: "task_state list \<Rightarrow> run_state" where
  "status_of_tasks ts =
     (if list_all (\<lambda>t. t = Task_PENDING) ts then PENDING
      else if list_ex (\<lambda>t. \<not> terminal t) ts then RUNNING
      else if \<not> list_ex (\<lambda>t. t = Task_ERRORED) ts then COMPLETED
      else if list_ex (\<lambda>t. t = Task_COMPLETED) ts then PARTIAL
      else FAILED)"

text \<open>Modelled from the spec: one task is started per roster agent (section 4.4), so the run
  state is read off the roster's tasks; the orchestrator is missing.\<close>

definition run_status :: "(string \<Rightarrow> task_state) \<Rightarrow> run_state" where
  "run_status tasks = status_of_tasks (map tasks roster)"

subsection \<open>Aggregator\<close>

text \<open>Modelled from the spec: the severity-bearing agents (section 3: severity counts come from
  "the error-detector/security/quality agents only"); the aggregator is missing.\<close>

definition severity_bearing :: "string list" where
  "severity_bearing = [''error_detector'', ''security_analyzer'', ''quality_checker'']"

text \<open>Modelled from the spec: the per-severity weights of section 4.5 (critical 15, error 8,
  warning 3, info 0); the aggregator is missing.\<close>

fun weight :: "severity \<Rightarrow> int" where
  "weight Sev_critical = 15"
| "weight Sev_error = 8"
| "weight Sev_warning = 3"
| "weight Sev_info = 0"

text \<open>Modelled from the spec: the findings the severity counts and the score look at, those of
  the severity-bearing agents, in the order of the mapping's entries; the aggregator is
  missing.\<close>

definition severity_findings :: "(string \<times> AgentResult) list \<Rightarrow> Finding list" where
  "severity_findings rs =
     concat (map (\<lambda>(a, r). r_findings r) (filter (\<lambda>(a, r). a \<in> set severity_bearing) rs))"

text \<open>Modelled from the spec: the number of findings of one severity; the aggregator is
  missing.\<close>

definition count_severity :: "severity \<Rightarrow> Finding list \<Rightarrow> int" where
  "count_severity sv fs = int (length (filter (\<lambda>f. f_severity f = sv) fs))"

text \<open>Modelled from the spec: the running total of findings over all agent results; the
  aggregator is missing.\<close>

definition count_findings :: "(string \<times> AgentResult) list \<Rightarrow> int" where
  "count_findings rs = fold (\<lambda>(a, r) n. n + int (length (r_findings r))) rs 0"

text \<open>Modelled from the spec: the bounded deduction score of section 4.5, "start at 100,
  subtract a fixed per-severity weight per finding from severity-bearing agents, floor at 0";
  the aggregator is missing.\<close>

definition quality_score_of :: "Finding list \<Rightarrow> int" where
  "quality_score_of fs = max 0 (fold (\<lambda>f score. score - weight (f_severity f)) fs 100)"

text \<open>Modelled from the spec: visualizations are collected in roster-declared agent order
  (section 4.5), from what each agent emitted, if anything; the aggregator is missing.\<close>

definition collect_visualizations :: "(string \<rightharpoonup> 'v) \<Rightarrow> 'v list" where
  "collect_visualizations emitted = List.map_filter emitted roster"

text \<open>Modelled from the spec: the terminal state of an agent's task, from its result's status;
  the orchestrator is missing.\<close>

definition task_of_result :: "(string \<times> AgentResult) list \<Rightarrow> string \<Rightarrow> task_state" where
  "task_of_result rs a =
     (case map_of rs a of
        None \<Rightarrow> Task_PENDING
      | Some r \<Rightarrow> (case r_status r of
                     Agent_completed \<Rightarrow> Task_COMPLETED
                   | Agent_error \<Rightarrow> Task_ERRORED))"

text \<open>Modelled from the spec: \<^verbatim>\<open>aggregate(mapping agent_id -> AgentResult) -> AnalysisReport\<close>
  of section 4.5; the aggregator is missing.\<close>

definition aggregate :: "(string \<times> AgentResult) list \<Rightarrow> (string \<rightharpoonup> 'v) \<Rightarrow> 'v AnalysisReport" where
  "aggregate rs emitted =
     \<lparr>rep_status = run_status (task_of_result rs),
      rep_summary =
        \<lparr>s_total_findings = count_findings rs,
         s_critical_issues = count_severity Sev_critical (severity_findings rs),
         s_warnings = count_severity Sev_warning (severity_findings rs),
         s_quality_score = quality_score_of (severity_findings rs)\<rparr>,
      rep_agent_results = rs,
      rep_visualizations = collect_visualizations emitted\<rparr>"

text \<open>Modelled from the spec: the summary as it appears in the response body, every field
  present (the sample response of \<^verbatim>\<open>backend/README.md\<close> shows the four keys); the endpoint
  is missing.\<close>

definition summary_to_json :: "Summary \<Rightarrow> summary_json" where
  "summary_to_json sm =
     \<lparr>total_findings = Some (s_total_findings sm),
      critical_issues = Some (s_critical_issues sm),
      warnings = Some (s_warnings sm),
      quality_score = Some (s_quality_score sm)\<rparr>"

subsection \<open>Simulation engine: bubble sort\<close>

text \<open>Modelled from the spec: the sorting frame of section 3,
  \<^verbatim>\<open>{array, comparing, swapping, sorted, message}\<close>; the simulation engine is missing. The
  index sets are arrays, as the canvas reads them with \<^verbatim>\<open>includes\<close>. The specification
  gives no message texts, so the message is left out.\<close>

record sort_frame =
  fr_array :: "int list"
  fr_comparing :: "nat list"
  fr_swapping :: "nat list"
  fr_sorted :: "nat list"

text \<open>Modelled from the spec: the working state of the instrumented reference implementation
  (section 4.3): the array, the frames appended so far, the operation counters, the indices
  already in their final place, and the \<^verbatim>\<open>swapped\<close> flag; the simulation engine is
  missing.\<close>

record sim_state =
  arr :: "int list"
  trace :: "sort_frame list"
  n_comparisons :: nat
  n_swaps :: nat
  placed :: "nat list"
  swapped :: bool

text \<open>Modelled from the spec: one step of the inner loop, "one frame per comparison and one
  per swap", the counters counting what is performed (section 4.3); the simulation engine is
  missing. The step is that of the repository's own bubble sort (\<^verbatim>\<open>SAMPLE_CODE\<close> in App.jsx):
  \<^verbatim>\<open>if arr[j] > arr[j + 1]: arr[j], arr[j + 1] = arr[j + 1], arr[j]; swapped = True\<close>.\<close>

definition compare_step :: "nat \<Rightarrow> sim_state \<Rightarrow> sim_state" where
  "compare_step j st =
     (let a = arr st;
          st1 = st\<lparr>trace := trace st @
                      [\<lparr>fr_array = a, fr_comparing = [j, j + 1], fr_swapping = [],
                        fr_sorted = placed st\<rparr>],
                    n_comparisons := n_comparisons st + 1\<rparr>
      in if a ! j > a ! (j + 1)
         then (let a' = a[j := a ! (j + 1), j + 1 := a ! j]
               in st1\<lparr>arr := a',
                      trace := trace st1 @
                        [\<lparr>fr_array = a', fr_comparing = [], fr_swapping = [j, j + 1],
                          fr_sorted = placed st\<rparr>],
                      n_swaps := n_swaps st + 1,
                      swapped := True\<rparr>)
         else st1)"

text \<open>Modelled from the spec: the inner loop \<^verbatim>\<open>for j in range(0, n - i - 1)\<close> of the
  reference bubble sort, by the number of iterations left; the simulation engine is missing.\<close>

fun inner_loop :: "nat \<Rightarrow> nat \<Rightarrow> sim_state \<Rightarrow> sim_state" where
  "inner_loop 0 j st = st"
| "inner_loop (Suc k) j st = inner_loop k (Suc j) (compare_step j st)"

text \<open>Modelled from the spec: the outer loop \<^verbatim>\<open>for i in range(n)\<close> with its early exit
  \<^verbatim>\<open>if not swapped: break\<close>, by the number of iterations left; after pass \<open>i\<close> the index
  \<open>n - i - 1\<close> holds its final value; the simulation engine is missing.\<close>

fun outer_loop :: "nat \<Rightarrow> nat \<Rightarrow> sim_state \<Rightarrow> sim_state" where
  "outer_loop 0 i st = st"
| "outer_loop (Suc k) i st =
     (let n = length (arr st);
          st1 = inner_loop (n - i - 1) 0 (st\<lparr>swapped := False\<rparr>);
          st2 = st1\<lparr>placed := (n - i - 1) # placed st1\<rparr>
      in if \<not> swapped st1 then st2 else outer_loop k (Suc i) st2)"

text \<open>Modelled from the spec: the result of a sorting simulation, its frames and the counted
  metrics (section 3, Visualization); the simulation engine is missing. The complexity texts
  are left out.\<close>

record sort_visualization =
  sim_frames :: "sort_frame list"
  sim_comparisons :: nat
  sim_swaps :: nat

text \<open>Modelled from the spec: \<^verbatim>\<open>simulate(sorting, bubble sort, inputData)\<close> of section 4.3;
  the simulation engine is missing. The last frame shows the final array with every index
  sorted ("the final frame's sorted set equals the full index range").\<close>

definition simulate_bubble_sort :: "int list \<Rightarrow> sort_visualization" where
  "simulate_bubble_sort input =
     (let st = outer_loop (length input) 0
                 \<lparr>arr = input, trace = [], n_comparisons = 0, n_swaps = 0, placed = [],
                  swapped = False\<rparr>
      in \<lparr>sim_frames = trace st @
             [\<lparr>fr_array = arr st, fr_comparing = [], fr_swapping = [],
               fr_sorted = [0 ..< length input]\<rparr>],
          sim_comparisons = n_comparisons st,
          sim_swaps = n_swaps st\<rparr>)"

section \<open>Sample data\<close>

text \<open>Concrete inputs on which the properties below are exercised.\<close>

definition sample_finding :: "severity \<Rightarrow> Finding" where
  "sample_finding sv =
     \<lparr>f_severity = sv, f_message = ''finding'', f_line = Some 1, f_suggestion = None,
      f_code_example = None\<rparr>"

definition sample_agent_results :: "(string \<times> AgentResult) list" where
  "sample_agent_results =
    [(''error_detector'',
      \<lparr>r_agent_id = ''error_detector'', r_findings = [sample_finding Sev_critical],
       r_status = Agent_completed, r_error_detail = None\<rparr>),
     (''quality_checker'',
      \<lparr>r_agent_id = ''quality_checker'',
       r_findings = [sample_finding Sev_warning, sample_finding Sev_info,
                     sample_finding Sev_warning],
       r_status = Agent_completed, r_error_detail = None\<rparr>),
     (''fix_suggester'',
      \<lparr>r_agent_id = ''fix_suggester'', r_findings = [sample_finding Sev_critical],
       r_status = Agent_completed, r_error_detail = None\<rparr>)]"

definition sample_report_body :: "nat results_json" where
  "sample_report_body =
     \<lparr>status = Some ''success'', message = None,
      summary = Some (summary_to_json
                  (rep_summary (aggregate sample_agent_results (Map.empty :: string \<rightharpoonup> nat)))),
      visualizations = Some [7, 8, 9]\<rparr>"

definition sample_app_state :: "nat app_state" where
  "sample_app_state =
     \<lparr>code = ''print(1)'', language = ''python'', analyzing = False, results = None,
      agentStatuses = Map.empty\<rparr>"

definition sample_visualization :: "nat visualization option" where
  "sample_visualization = Some \<lparr>vis_type = Some ''sorting'', frames = Some [10, 20, 30]\<rparr>"

definition sample_tasks :: "string \<Rightarrow> task_state" where
  "sample_tasks a = (if a = ''security_analyzer'' then Task_ERRORED else Task_COMPLETED)"

text \<open>
  A response body that parses but carries none of the fields the components read, such as
  \<^verbatim>\<open>{}\<close> or \<^verbatim>\<open>{"error": "No code provided"}\<close>.
\<close>

definition bare_body :: "nat results_json" where
  "bare_body = \<lparr>status = None, message = None, summary = None, visualizations = None\<rparr>"

section \<open>Properties\<close>

subsection \<open>The roster and the dashboard\<close>

lemma AGENTS_ids:
  "map agent_id AGENTS =
     [''error_detector'', ''complexity_analyzer'', ''memory_profiler'', ''security_analyzer'',
      ''quality_checker'', ''algorithm_visualizer'', ''fix_suggester'']"
  by (simp add: AGENTS_def)

lemma roster_nonempty: "roster \<noteq> []"
  by (simp add: roster_def AGENTS_def)

text \<open>
  Claim C8. For every statuses mapping, the empty one included, the dashboard renders exactly
  the seven roster agents, in the order the roster declares them, each once; and an agent
  whose id is absent from the mapping is shown as \<^verbatim>\<open>pending\<close>.
\<close>

theorem dashboard_renders_roster:
  "map (agent_id \<circ> card_agent) (WorkflowDashboard statuses) =
     [''error_detector'', ''complexity_analyzer'', ''memory_profiler'', ''security_analyzer'',
      ''quality_checker'', ''algorithm_visualizer'', ''fix_suggester'']
   \<and> map card_agent (WorkflowDashboard statuses) = AGENTS
   \<and> length (WorkflowDashboard statuses) = 7
   \<and> distinct (map (agent_id \<circ> card_agent) (WorkflowDashboard statuses))
   \<and> (\<forall>c \<in> set (WorkflowDashboard statuses).
         statuses (agent_id (card_agent c)) = None \<longrightarrow> card_status c = ''pending'')
   \<and> map card_status (WorkflowDashboard Map.empty) =
       [''pending'', ''pending'', ''pending'', ''pending'', ''pending'', ''pending'', ''pending'']"
proof -
  have cards: "map card_agent (WorkflowDashboard statuses) = AGENTS"
    by (simp add: WorkflowDashboard_def Let_def comp_def)
  have ids: "map (agent_id \<circ> card_agent) (WorkflowDashboard statuses) = map agent_id AGENTS"
    by (simp add: WorkflowDashboard_def Let_def comp_def)
  have len: "length (WorkflowDashboard statuses) = 7"
    by (simp add: WorkflowDashboard_def AGENTS_def)
  have dist: "distinct (map (agent_id \<circ> card_agent) (WorkflowDashboard statuses))"
    unfolding ids AGENTS_ids by simp
  have pend: "\<forall>c \<in> set (WorkflowDashboard statuses).
         statuses (agent_id (card_agent c)) = None \<longrightarrow> card_status c = ''pending''"
    by (auto simp: WorkflowDashboard_def Let_def getStatus_def)
  have empty: "map card_status (WorkflowDashboard Map.empty) =
       [''pending'', ''pending'', ''pending'', ''pending'', ''pending'', ''pending'', ''pending'']"
    by (simp add: WorkflowDashboard_def Let_def getStatus_def AGENTS_def)
  from cards ids len dist pend empty show ?thesis
    unfolding AGENTS_ids by blast
qed

theorem dashboard_renders_roster_witness:
  "card_status (WorkflowDashboard [''error_detector'' \<mapsto> ''running''] ! 1) = ''pending''
   \<and> card_status (WorkflowDashboard [''error_detector'' \<mapsto> ''running''] ! 0) = ''running''"
proof -
  let ?st = "[''error_detector'' \<mapsto> ''running'']"
  have mem: "WorkflowDashboard ?st ! 1 \<in> set (WorkflowDashboard ?st)"
    by (simp add: WorkflowDashboard_def AGENTS_def)
  have absent: "?st (agent_id (card_agent (WorkflowDashboard ?st ! 1))) = None"
    by (simp add: WorkflowDashboard_def AGENTS_def Let_def)
  from dashboard_renders_roster [of ?st] mem absent
  have "card_status (WorkflowDashboard ?st ! 1) = ''pending''" by blast
  moreover have "card_status (WorkflowDashboard ?st ! 0) = ''running''"
    by (simp add: WorkflowDashboard_def AGENTS_def Let_def getStatus_def)
  ultimately show ?thesis by simp
qed

subsection \<open>Languages\<close>

lemma langMap_keys: "map fst langMap = language_enum"
  by (simp add: langMap_def language_enum_def)

text \<open>The editor's half of the language handling: identity on the enum, and the default for
  every other string that is not a member of \<^verbatim>\<open>Object.prototype\<close>.\<close>

lemma getLanguageMode_enum: "\<forall>l \<in> set language_enum. getLanguageMode l = Str l"
  by (simp add: language_enum_def getLanguageMode_def langMap_def)

lemma getLanguageMode_default:
  assumes "l \<notin> set language_enum" and "l \<notin> set Object_prototype_keys"
  shows "getLanguageMode l = Str ''python''"
proof -
  from assms(1) have "map_of langMap l = None"
    unfolding langMap_keys [symmetric] by (simp add: map_of_eq_None_iff)
  with assms(2) show ?thesis by (simp add: getLanguageMode_def)
qed

text \<open>
  Claim C9. The claim has the program offer all ten languages of the enum for submission. The
  \<^verbatim>\<open><select>\<close> of App.jsx, the only place a language is chosen, offers five: \<^verbatim>\<open>go\<close> is in
  the enum and handled by the editor's \<^verbatim>\<open>langMap\<close>, yet it is not among the options (nor are
  \<^verbatim>\<open>c\<close>, \<^verbatim>\<open>rust\<close>, \<^verbatim>\<open>ruby\<close>, \<^verbatim>\<open>php\<close>).
\<close>

theorem language_select_misses_go:
  "map fst language_options = [''python'', ''javascript'', ''typescript'', ''java'', ''cpp'']
   \<and> ''go'' \<in> set language_enum
   \<and> ''go'' \<notin> set (map fst language_options)
   \<and> getLanguageMode ''go'' = Str ''go''"
  by (simp add: language_options_def language_enum_def getLanguageMode_def langMap_def)

subsection \<open>The frame player\<close>

lemma handle_keeps_index_in_range:
  "currentFrame s < length fs \<Longrightarrow> enabled fs s e \<Longrightarrow> currentFrame (handle fs e s) < length fs"
  by (cases e)
     (auto simp: handleReset_def handleStepBack_def handlePlayPause_def handleStepForward_def
        setSpeed_def slider_change_def autoplay_tick_def Let_def)

lemma perform_keeps_index_in_range:
  "currentFrame s < length fs \<Longrightarrow> perform fs es s = Some s' \<Longrightarrow> currentFrame s' < length fs"
proof (induction es arbitrary: s)
  case Nil
  then show ?case by simp
next
  case (Cons e es)
  from Cons.prems(2) have en: "enabled fs s e" and run: "perform fs es (handle fs e s) = Some s'"
    by (auto split: if_splits)
  from handle_keeps_index_in_range [OF Cons.prems(1) en] run show ?case
    by (rule Cons.IH)
qed

lemma canvas_shows_indexed_frame:
  "canvas_frames v \<noteq> [] \<Longrightarrow> currentFrame s < length (canvas_frames v) \<Longrightarrow>
   AlgorithmCanvas v s = ShowFrame (Some (canvas_frames v ! currentFrame s))"
  by (cases v) (auto simp: AlgorithmCanvas_def Let_def canvas_frames_def)

lemma step_forward_then_back:
  "enabled fs s ClickStepForward \<Longrightarrow> perform fs [ClickStepForward, ClickStepBack] s = Some s"
  by (simp add: handleStepForward_def handleStepBack_def)

lemma slider_reaches:
  "i < length fs \<Longrightarrow> perform fs [SlideTo i] canvas_init = Some (canvas_init\<lparr>currentFrame := i\<rparr>)"
  by (auto simp: slider_change_def)

text \<open>
  At the last frame Step Forward is disabled and cannot be clicked. The handler itself would
  leave the index alone there, so a following Step Back would show the frame before.
\<close>

lemma step_forward_handler_at_last_frame:
  "handleStepBack (handleStepForward [10, 20 :: nat]
      \<lparr>currentFrame = 1, isPlaying = False, speed = One\<rparr>)
     = \<lparr>currentFrame = 0, isPlaying = False, speed = One\<rparr>
   \<and> \<not> enabled [10, 20 :: nat] \<lparr>currentFrame = 1, isPlaying = False, speed = One\<rparr>
         ClickStepForward"
  by (simp add: handleStepForward_def handleStepBack_def)

text \<open>
  Claim C4. For a visualization with at least one frame: what the canvas draws depends on the
  player's state through \<^verbatim>\<open>currentFrame\<close> alone; whatever sequence of step, reset, slider,
  play/pause, speed and autoplay operations leads from the initial state to index \<open>i\<close>, the
  index is in range and the frame drawn is \<^verbatim>\<open>frames[i]\<close>; every index can be reached; and a
  step forward followed by a step back restores the state, hence the frame.
\<close>

theorem frame_is_function_of_index:
  assumes nonempty: "canvas_frames v \<noteq> []"
  shows "(\<forall>s t. currentFrame s = currentFrame t \<longrightarrow> AlgorithmCanvas v s = AlgorithmCanvas v t)
    \<and> (\<forall>es s i. perform (canvas_frames v) es canvas_init = Some s \<and> currentFrame s = i \<longrightarrow>
          i < length (canvas_frames v) \<and>
          AlgorithmCanvas v s = ShowFrame (Some (canvas_frames v ! i)))
    \<and> (\<forall>i < length (canvas_frames v).
          \<exists>es s. perform (canvas_frames v) es canvas_init = Some s \<and> currentFrame s = i)
    \<and> (\<forall>s. enabled (canvas_frames v) s ClickStepForward \<longrightarrow>
          perform (canvas_frames v) [ClickStepForward, ClickStepBack] s = Some s)"
proof (intro conjI allI impI)
  fix s t :: canvas_state
  assume "currentFrame s = currentFrame t"
  then show "AlgorithmCanvas v s = AlgorithmCanvas v t"
    by (simp add: AlgorithmCanvas_def Let_def)
next
  fix es s i
  assume run: "perform (canvas_frames v) es canvas_init = Some s \<and> currentFrame s = i"
  from nonempty have "currentFrame canvas_init < length (canvas_frames v)"
    by (simp add: canvas_init_def)
  with run have inr: "currentFrame s < length (canvas_frames v)"
    using perform_keeps_index_in_range by blast
  with run show "i < length (canvas_frames v)" by simp
  from run inr nonempty
  show "AlgorithmCanvas v s = ShowFrame (Some (canvas_frames v ! i))"
    using canvas_shows_indexed_frame by blast
next
  fix i
  assume "i < length (canvas_frames v)"
  then have "perform (canvas_frames v) [SlideTo i] canvas_init
      = Some (canvas_init\<lparr>currentFrame := i\<rparr>)"
    by (rule slider_reaches)
  moreover have "currentFrame (canvas_init\<lparr>currentFrame := i\<rparr>) = i" by simp
  ultimately show "\<exists>es s. perform (canvas_frames v) es canvas_init = Some s \<and> currentFrame s = i"
    by blast
next
  fix s
  assume "enabled (canvas_frames v) s ClickStepForward"
  then show "perform (canvas_frames v) [ClickStepForward, ClickStepBack] s = Some s"
    by (rule step_forward_then_back)
qed

lemma sample_frames: "canvas_frames sample_visualization = [10, 20, 30]"
  by (simp add: canvas_frames_def sample_visualization_def)

theorem frame_is_function_of_index_witness:
  "AlgorithmCanvas sample_visualization \<lparr>currentFrame = 1, isPlaying = True, speed = Two\<rparr>
     = ShowFrame (Some 20)
   \<and> perform [10, 20, 30 :: nat] [ClickStepForward, ClickStepForward, ClickStepBack] canvas_init
     = Some \<lparr>currentFrame = 1, isPlaying = False, speed = One\<rparr>
   \<and> AlgorithmCanvas sample_visualization \<lparr>currentFrame = 1, isPlaying = False, speed = One\<rparr>
     = ShowFrame (Some 20)
   \<and> perform [10, 20, 30 :: nat] [ClickStepForward, ClickStepBack] canvas_init = Some canvas_init"
proof -
  have ne: "canvas_frames sample_visualization \<noteq> []"
    by (simp add: sample_frames)
  note inst = frame_is_function_of_index [OF ne, unfolded sample_frames]
  let ?s = "\<lparr>currentFrame = 1, isPlaying = False, speed = One\<rparr>"
  have run: "perform [10, 20, 30 :: nat] [ClickStepForward, ClickStepForward, ClickStepBack]
      canvas_init = Some ?s"
    by (simp add: canvas_init_def handleStepForward_def handleStepBack_def)
  from inst run have shown: "AlgorithmCanvas sample_visualization ?s = ShowFrame (Some ([10, 20, 30] ! 1))"
    by (metis canvas_state.select_convs(1))
  from inst have "AlgorithmCanvas sample_visualization \<lparr>currentFrame = 1, isPlaying = True, speed = Two\<rparr>
      = AlgorithmCanvas sample_visualization ?s"
    by (metis canvas_state.select_convs(1))
  with shown have other: "AlgorithmCanvas sample_visualization
      \<lparr>currentFrame = 1, isPlaying = True, speed = Two\<rparr> = ShowFrame (Some 20)"
    by simp
  have en: "enabled [10, 20, 30 :: nat] canvas_init ClickStepForward"
    by (simp add: canvas_init_def)
  with inst have restored: "perform [10, 20, 30 :: nat] [ClickStepForward, ClickStepBack] canvas_init
      = Some canvas_init"
    by blast
  from other run shown restored show ?thesis by simp
qed

subsection \<open>The analyze operation and the panels\<close>

lemma ResultsPanel_failure_iff:
  "(\<exists>msg. ResultsPanel r = FailurePanel msg) \<longleftrightarrow>
     (r = None \<or> (\<exists>x. r = Some x \<and> status x = Some ''error''))"
  by (auto simp: ResultsPanel_def split: option.splits)

lemma handleAnalyze_analyzing: "analyzing (handleAnalyze outcome s) = False"
  by (cases outcome) (simp_all add: handleAnalyze_def analyze_settle_def analyze_start_def)

lemma handleAnalyze_results:
  "results (handleAnalyze outcome s) =
     (case outcome of
        Body d \<Rightarrow> d
      | FetchRejects m \<Rightarrow> Some (error_result m)
      | JsonRejects m \<Rightarrow> Some (error_result m))"
  by (cases outcome) (simp_all add: handleAnalyze_def analyze_settle_def analyze_start_def)

lemma error_result_panel:
  "is_error_result (error_result m) \<and>
   ResultsPanel (Some (error_result m)) =
     FailurePanel (if m = [] then ''An error occurred during analysis'' else m)"
  by (simp add: is_error_result_def error_result_def ResultsPanel_def)

lemma report_panel:
  "is_AnalysisReport d \<Longrightarrow> status d \<noteq> Some ''error'' \<Longrightarrow> \<exists>c. ResultsPanel (Some d) = ResultsView c"
  by (auto simp: is_AnalysisReport_def ResultsPanel_def split: option.splits)

text \<open>
  Claim C7, as amended. Once the awaited calls have settled, every invocation of
  \<^verbatim>\<open>handleAnalyze\<close> leaves \<^verbatim>\<open>analyzing\<close> false. When \<^verbatim>\<open>fetch\<close> or
  \<^verbatim>\<open>response.json()\<close> throws, the result is the well-formed error result
  \<^verbatim>\<open>{status: 'error', message}\<close>, which the panel shows as a failure. Otherwise the result is
  the parsed body exactly as received: a well-formed report when the body is one, and then the
  panel renders it. The panel shows the failure box exactly when the result is absent or its
  status is \<^verbatim>\<open>'error'\<close>.
\<close>

theorem handleAnalyze_contract:
  "analyzing (handleAnalyze (outcome :: 'v fetch_outcome) s) = False
   \<and> results (handleAnalyze outcome s) =
       (case outcome of
          Body d \<Rightarrow> d
        | FetchRejects m \<Rightarrow> Some (error_result m)
        | JsonRejects m \<Rightarrow> Some (error_result m))
   \<and> (\<forall>m. is_error_result (error_result m :: 'v results_json) \<and>
           ResultsPanel (Some (error_result m :: 'v results_json)) =
             FailurePanel (if m = [] then ''An error occurred during analysis'' else m))
   \<and> ((\<exists>msg. ResultsPanel (r :: 'v results_json option) = FailurePanel msg) \<longleftrightarrow>
         (r = None \<or> (\<exists>x. r = Some x \<and> status x = Some ''error'')))
   \<and> (\<forall>d. outcome = Body (Some d) \<and> is_AnalysisReport d \<longrightarrow>
         results (handleAnalyze outcome s) = Some d \<and>
         (status d \<noteq> Some ''error'' \<longrightarrow>
            (\<exists>c. results_section (handleAnalyze outcome s) = Some (ResultsView c))))"
proof -
  have body: "\<forall>d. outcome = Body (Some d) \<and> is_AnalysisReport d \<longrightarrow>
         results (handleAnalyze outcome s) = Some d \<and>
         (status d \<noteq> Some ''error'' \<longrightarrow>
            (\<exists>c. results_section (handleAnalyze outcome s) = Some (ResultsView c)))"
    using report_panel
    by (auto simp: results_section_def handleAnalyze_results handleAnalyze_analyzing)
  show ?thesis
    using handleAnalyze_analyzing [of outcome s] handleAnalyze_results [of outcome s]
      error_result_panel ResultsPanel_failure_iff [of r] body
    by blast
qed

lemma sample_report_body_ok:
  "is_AnalysisReport sample_report_body \<and> status sample_report_body \<noteq> Some ''error''"
  by (simp add: is_AnalysisReport_def sample_report_body_def summary_to_json_def)

theorem handleAnalyze_contract_witness:
  "is_AnalysisReport sample_report_body
   \<and> results (handleAnalyze (Body (Some sample_report_body)) sample_app_state)
       = Some sample_report_body
   \<and> (\<exists>c. results_section (handleAnalyze (Body (Some sample_report_body)) sample_app_state)
            = Some (ResultsView c))
   \<and> results (handleAnalyze (FetchRejects ''Failed to fetch'') sample_app_state)
       = Some (error_result ''Failed to fetch'')
   \<and> analyzing (handleAnalyze (FetchRejects ''Failed to fetch'') sample_app_state) = False"
proof -
  note ok = sample_report_body_ok
  from handleAnalyze_contract [of "Body (Some sample_report_body)" sample_app_state None] ok
  have a: "results (handleAnalyze (Body (Some sample_report_body)) sample_app_state)
       = Some sample_report_body"
    and b: "\<exists>c. results_section (handleAnalyze (Body (Some sample_report_body)) sample_app_state)
            = Some (ResultsView c)"
    by blast+
  from handleAnalyze_contract [of "FetchRejects ''Failed to fetch''" sample_app_state None]
  have c: "results (handleAnalyze (FetchRejects ''Failed to fetch'') sample_app_state)
       = Some (error_result ''Failed to fetch'')"
    and d: "analyzing (handleAnalyze (FetchRejects ''Failed to fetch'') sample_app_state) = False"
    by simp_all
  from ok a b c d show ?thesis by blast
qed

text \<open>
  Claim C7, as stated, fails: a body that parses but is neither a report nor an error result
  is stored as it is, and the results panel then throws while rendering.
\<close>

theorem unvalidated_body_counterexample:
  "results (handleAnalyze (Body (Some bare_body)) sample_app_state) = Some bare_body
   \<and> \<not> is_AnalysisReport bare_body
   \<and> \<not> is_error_result bare_body
   \<and> results_section (handleAnalyze (Body (Some bare_body)) sample_app_state)
       = Some RenderThrows"
  by (simp add: handleAnalyze_def analyze_settle_def analyze_start_def is_AnalysisReport_def
      is_error_result_def results_section_def ResultsPanel_def bare_body_def
      sample_app_state_def)

text \<open>
  Claim C10. The visualization section hands a visualization to the canvas exactly when the
  app is not analyzing and the result carries a non-empty \<^verbatim>\<open>visualizations\<close> sequence, and
  then it is the element at index 0; whatever stands at index 1 or beyond has no effect on
  what is shown.
\<close>

theorem only_first_visualization_shown:
  "(visualization_section s = Some v \<longleftrightarrow>
      (\<not> analyzing s \<and>
       (\<exists>r vs. results s = Some r \<and> visualizations r = Some vs \<and> vs \<noteq> [] \<and> v = vs ! 0)))
   \<and> (\<forall>r x xs ys. results s = Some r \<and> visualizations r = Some (x # xs) \<longrightarrow>
         visualization_section (s\<lparr>results := Some (r\<lparr>visualizations := Some (x # ys)\<rparr>)\<rparr>)
           = visualization_section s)"
  by (auto simp: visualization_section_def split: option.splits list.splits)

theorem only_first_visualization_shown_witness:
  "visualization_section (handleAnalyze (Body (Some sample_report_body)) sample_app_state)
     = Some 7
   \<and> visualization_section
       ((handleAnalyze (Body (Some sample_report_body)) sample_app_state)
          \<lparr>results := Some (sample_report_body\<lparr>visualizations := Some [7, 100]\<rparr>)\<rparr>)
     = Some 7"
proof -
  let ?s = "handleAnalyze (Body (Some sample_report_body)) sample_app_state"
  have r: "results ?s = Some sample_report_body"
    by (simp add: handleAnalyze_results)
  have vs: "visualizations sample_report_body = Some (7 # [8, 9])"
    by (simp add: sample_report_body_def)
  have shown: "visualization_section ?s = Some 7"
    using only_first_visualization_shown [of ?s 7] r vs handleAnalyze_analyzing [of _ sample_app_state]
    by auto
  from only_first_visualization_shown [of ?s 7] r vs
  have "visualization_section
       (?s\<lparr>results := Some (sample_report_body\<lparr>visualizations := Some (7 # [100])\<rparr>)\<rparr>)
     = visualization_section ?s"
    by blast
  with shown show ?thesis by simp
qed

subsection \<open>The aggregator\<close>

lemma fold_count_findings:
  "fold (\<lambda>(a, r) n. n + int (length (r_findings r))) rs k =
     k + sum_list (map (\<lambda>(a, r). int (length (r_findings r))) rs)"
  by (induction rs arbitrary: k) (auto split: prod.splits)

lemma count_findings_sum:
  "count_findings rs = sum_list (map (\<lambda>(a, r). int (length (r_findings r))) rs)"
  by (simp add: count_findings_def fold_count_findings)

lemma or_zero_Some: "or_zero (Some n) = n"
  by (simp add: or_zero_def)

text \<open>
  Claim C1. The report's \<^verbatim>\<open>summary.total_findings\<close> is the sum of the lengths of the findings
  sequences over all agent results of the report; and the Total Findings card of the results
  panel shows that number for any non-error response carrying the report's summary.
\<close>

theorem total_findings_is_sum:
  "s_total_findings (rep_summary (aggregate rs emitted)) =
     sum_list (map (\<lambda>(a, r). int (length (r_findings r)))
       (rep_agent_results (aggregate rs emitted)))
   \<and> (\<forall>res :: 'w results_json.
         summary res = Some (summary_to_json (rep_summary (aggregate rs emitted))) \<and>
         status res \<noteq> Some ''error'' \<longrightarrow>
         (\<exists>c. ResultsPanel (Some res) = ResultsView c \<and>
              card_total c = sum_list (map (\<lambda>(a, r). int (length (r_findings r))) rs)))"
  by (simp add: aggregate_def count_findings_sum ResultsPanel_def summary_to_json_def or_zero_Some)

lemma sample_total: "sum_list (map (\<lambda>(a, r). int (length (r_findings r))) sample_agent_results) = 5"
  by (simp add: sample_agent_results_def)

theorem total_findings_is_sum_witness:
  "s_total_findings (rep_summary (aggregate sample_agent_results (Map.empty :: string \<rightharpoonup> nat))) = 5
   \<and> (\<exists>c. ResultsPanel (Some sample_report_body) = ResultsView c \<and> card_total c = 5)"
proof -
  note inst = total_findings_is_sum [of sample_agent_results "Map.empty :: string \<rightharpoonup> nat",
      where ?'w = nat]
  have agr: "rep_agent_results (aggregate sample_agent_results (Map.empty :: string \<rightharpoonup> nat))
      = sample_agent_results"
    by (simp add: aggregate_def)
  from inst have total: "s_total_findings
      (rep_summary (aggregate sample_agent_results (Map.empty :: string \<rightharpoonup> nat))) = 5"
    unfolding agr sample_total by blast
  have pre: "summary sample_report_body =
      Some (summary_to_json (rep_summary (aggregate sample_agent_results (Map.empty :: string \<rightharpoonup> nat))))
      \<and> status sample_report_body \<noteq> Some ''error''"
    by (simp add: sample_report_body_def)
  from inst pre have "\<exists>c. ResultsPanel (Some sample_report_body) = ResultsView c \<and> card_total c = 5"
    unfolding sample_total by blast
  with total show ?thesis by blast
qed

lemma fold_deduct:
  "fold (\<lambda>f score. score - weight (f_severity f)) fs k =
     k - 15 * count_severity Sev_critical fs - 8 * count_severity Sev_error fs
       - 3 * count_severity Sev_warning fs"
proof (induction fs arbitrary: k)
  case Nil
  then show ?case by (simp add: count_severity_def)
next
  case (Cons f fs)
  show ?case
    by (cases "f_severity f") (simp_all add: Cons.IH count_severity_def)
qed

lemma quality_score_closed_form:
  "quality_score_of fs =
     max 0 (100 - 15 * count_severity Sev_critical fs - 8 * count_severity Sev_error fs
              - 3 * count_severity Sev_warning fs)"
  by (simp add: quality_score_of_def fold_deduct)

text \<open>
  Claim C3. The quality score of the report is
  \<open>max 0 (100 - 15 * critical - 8 * error - 3 * warning)\<close>, the counts taken over the findings
  of the severity-bearing agents only; with no such finding it is 100, and with one critical
  finding and two warnings it is 79.
\<close>

theorem quality_score_formula:
  "s_quality_score (rep_summary (aggregate rs emitted)) =
     max 0 (100 - 15 * count_severity Sev_critical (severity_findings rs)
                - 8 * count_severity Sev_error (severity_findings rs)
                - 3 * count_severity Sev_warning (severity_findings rs))
   \<and> (severity_findings rs = [] \<longrightarrow> s_quality_score (rep_summary (aggregate rs emitted)) = 100)
   \<and> (count_severity Sev_critical (severity_findings rs) = 1 \<and>
       count_severity Sev_error (severity_findings rs) = 0 \<and>
       count_severity Sev_warning (severity_findings rs) = 2 \<longrightarrow>
         s_quality_score (rep_summary (aggregate rs emitted)) = 79)"
proof -
  have sc: "s_quality_score (rep_summary (aggregate rs emitted))
      = quality_score_of (severity_findings rs)"
    by (simp add: aggregate_def)
  have none: "severity_findings rs = [] \<longrightarrow> quality_score_of (severity_findings rs) = 100"
    by (simp add: quality_score_of_def)
  show ?thesis
    unfolding sc using none by (simp add: quality_score_closed_form)
qed

lemma sample_severity_findings:
  "severity_findings sample_agent_results =
     [sample_finding Sev_critical, sample_finding Sev_warning, sample_finding Sev_info,
      sample_finding Sev_warning]"
  by (simp add: severity_findings_def sample_agent_results_def severity_bearing_def)

lemma sample_counts:
  "count_severity Sev_critical (severity_findings sample_agent_results) = 1 \<and>
   count_severity Sev_error (severity_findings sample_agent_results) = 0 \<and>
   count_severity Sev_warning (severity_findings sample_agent_results) = 2"
  by (simp add: sample_severity_findings count_severity_def sample_finding_def)

theorem quality_score_formula_witness:
  "s_quality_score (rep_summary (aggregate sample_agent_results (Map.empty :: string \<rightharpoonup> nat))) = 79
   \<and> s_quality_score (rep_summary (aggregate [] (Map.empty :: string \<rightharpoonup> nat))) = 100"
proof -
  from quality_score_formula [of sample_agent_results "Map.empty :: string \<rightharpoonup> nat"] sample_counts
  have a: "s_quality_score
      (rep_summary (aggregate sample_agent_results (Map.empty :: string \<rightharpoonup> nat))) = 79"
    by blast
  have "severity_findings [] = []" by (simp add: severity_findings_def)
  with quality_score_formula [of "[]" "Map.empty :: string \<rightharpoonup> nat"]
  have "s_quality_score (rep_summary (aggregate [] (Map.empty :: string \<rightharpoonup> nat))) = 100"
    by blast
  with a show ?thesis by simp
qed

text \<open>
  The sample response of \<^verbatim>\<open>backend/README.md\<close> shows \<^verbatim>\<open>critical_issues: 2\<close>,
  \<^verbatim>\<open>warnings: 5\<close> and \<^verbatim>\<open>quality_score: 85\<close>. The deduction score cannot give that: with
  those counts it is at most 55.
\<close>

lemma readme_sample_score:
  assumes "count_severity Sev_critical fs = 2" and "count_severity Sev_warning fs = 5"
  shows "quality_score_of fs \<le> 55"
proof -
  have "0 \<le> count_severity Sev_error fs" by (simp add: count_severity_def)
  with assms show ?thesis by (simp add: quality_score_closed_form)
qed

subsection \<open>The state of a run\<close>

lemma status_of_tasks_terminal:
  assumes ne: "ts \<noteq> []" and allt: "\<forall>t \<in> set ts. terminal t"
  shows "(status_of_tasks ts = COMPLETED \<longleftrightarrow> (\<forall>t \<in> set ts. t \<noteq> Task_ERRORED))"
    and "(status_of_tasks ts = PARTIAL \<longleftrightarrow>
            (\<exists>t \<in> set ts. t = Task_ERRORED) \<and> (\<exists>t \<in> set ts. t = Task_COMPLETED))"
    and "(status_of_tasks ts = FAILED \<longleftrightarrow> (\<forall>t \<in> set ts. t = Task_ERRORED))"
proof -
  from ne obtain t0 where t0: "t0 \<in> set ts" by (cases ts) auto
  with allt have "terminal t0" by blast
  with t0 have notpend: "\<not> list_all (\<lambda>t. t = Task_PENDING) ts"
    by (auto simp: list_all_iff terminal_def)
  from allt have settled: "\<not> list_ex (\<lambda>t. \<not> terminal t) ts"
    by (simp add: list_ex_iff)
  have st: "status_of_tasks ts =
      (if \<not> list_ex (\<lambda>t. t = Task_ERRORED) ts then COMPLETED
       else if list_ex (\<lambda>t. t = Task_COMPLETED) ts then PARTIAL else FAILED)"
    using notpend settled by (simp add: status_of_tasks_def)
  show "(status_of_tasks ts = COMPLETED \<longleftrightarrow> (\<forall>t \<in> set ts. t \<noteq> Task_ERRORED))"
    unfolding st by (auto simp: list_ex_iff)
  show "(status_of_tasks ts = PARTIAL \<longleftrightarrow>
            (\<exists>t \<in> set ts. t = Task_ERRORED) \<and> (\<exists>t \<in> set ts. t = Task_COMPLETED))"
    unfolding st by (auto simp: list_ex_iff)
  show "(status_of_tasks ts = FAILED \<longleftrightarrow> (\<forall>t \<in> set ts. t = Task_ERRORED))"
    unfolding st using allt t0 by (auto simp: list_ex_iff terminal_def)
qed

text \<open>
  Claim C2. When every task of the roster has reached a terminal state, the run is COMPLETED
  exactly when no agent errored, PARTIAL exactly when at least one agent errored and at least
  one completed, and FAILED exactly when every agent errored.
\<close>

theorem run_status_when_terminal:
  assumes allt: "\<forall>a \<in> set roster. terminal (tasks a)"
  shows "(run_status tasks = COMPLETED \<longleftrightarrow> (\<forall>a \<in> set roster. tasks a \<noteq> Task_ERRORED))
     \<and> (run_status tasks = PARTIAL \<longleftrightarrow>
          (\<exists>a \<in> set roster. tasks a = Task_ERRORED) \<and>
          (\<exists>a \<in> set roster. tasks a = Task_COMPLETED))
     \<and> (run_status tasks = FAILED \<longleftrightarrow> (\<forall>a \<in> set roster. tasks a = Task_ERRORED))"
proof -
  have ne: "map tasks roster \<noteq> []" using roster_nonempty by simp
  have tm: "\<forall>t \<in> set (map tasks roster). terminal t" using allt by simp
  have c: "run_status tasks = COMPLETED \<longleftrightarrow> (\<forall>a \<in> set roster. tasks a \<noteq> Task_ERRORED)"
    using status_of_tasks_terminal(1) [OF ne tm] by (simp add: run_status_def)
  have p: "run_status tasks = PARTIAL \<longleftrightarrow>
          (\<exists>a \<in> set roster. tasks a = Task_ERRORED) \<and>
          (\<exists>a \<in> set roster. tasks a = Task_COMPLETED)"
    using status_of_tasks_terminal(2) [OF ne tm] by (simp add: run_status_def image_iff) metis
  have f: "run_status tasks = FAILED \<longleftrightarrow> (\<forall>a \<in> set roster. tasks a = Task_ERRORED)"
    using status_of_tasks_terminal(3) [OF ne tm] by (simp add: run_status_def)
  from c p f show ?thesis by blast
qed

lemma roster_ids:
  "roster = [''error_detector'', ''complexity_analyzer'', ''memory_profiler'',
     ''security_analyzer'', ''quality_checker'', ''algorithm_visualizer'', ''fix_suggester'']"
  by (simp add: roster_def AGENTS_ids)

theorem run_status_when_terminal_witness:
  "run_status sample_tasks = PARTIAL
   \<and> run_status (\<lambda>a. Task_ERRORED) = FAILED
   \<and> run_status (\<lambda>a. Task_COMPLETED) = COMPLETED"
proof -
  have t1: "\<forall>a \<in> set roster. terminal (sample_tasks a)"
    by (simp add: terminal_def sample_tasks_def)
  have e1: "\<exists>a \<in> set roster. sample_tasks a = Task_ERRORED"
    by (simp add: roster_ids sample_tasks_def)
  have c1: "\<exists>a \<in> set roster. sample_tasks a = Task_COMPLETED"
    by (simp add: roster_ids sample_tasks_def)
  from run_status_when_terminal [OF t1] e1 c1 have p: "run_status sample_tasks = PARTIAL"
    by blast
  have t2: "\<forall>a \<in> set roster. terminal ((\<lambda>a. Task_ERRORED) a)"
    by (simp add: terminal_def)
  from run_status_when_terminal [OF t2] have f: "run_status (\<lambda>a. Task_ERRORED) = FAILED"
    by simp
  have t3: "\<forall>a \<in> set roster. terminal ((\<lambda>a. Task_COMPLETED) a)"
    by (simp add: terminal_def)
  from run_status_when_terminal [OF t3] have c: "run_status (\<lambda>a. Task_COMPLETED) = COMPLETED"
    by simp
  from p f c show ?thesis by simp
qed

subsection \<open>The bubble sort simulation\<close>

lemma bubble_last_frame:
  "last (sim_frames (simulate_bubble_sort [64, 34, 25, 12, 22, 11, 90])) =
     \<lparr>fr_array = [11, 12, 22, 25, 34, 64, 90], fr_comparing = [], fr_swapping = [],
      fr_sorted = [0, 1, 2, 3, 4, 5, 6]\<rparr>"
  by code_simp

lemma bubble_comparisons:
  "sim_comparisons (simulate_bubble_sort [64, 34, 25, 12, 22, 11, 90]) = 21"
  by code_simp

lemma bubble_comparison_frames:
  "length (filter (\<lambda>f. fr_comparing f \<noteq> [])
     (sim_frames (simulate_bubble_sort [64, 34, 25, 12, 22, 11, 90]))) = 21"
  by code_simp

text \<open>
  Claim C6. On the input \<open>[64, 34, 25, 12, 22, 11, 90]\<close> the last frame of the bubble sort
  simulation shows the array \<open>[11, 12, 22, 25, 34, 64, 90]\<close> with all seven indices sorted;
  the comparison count is at least 21, and it is a count of what was performed: it equals the
  number of comparison frames recorded.
\<close>

theorem bubble_sort_reference_run:
  "fr_array (last (sim_frames (simulate_bubble_sort [64, 34, 25, 12, 22, 11, 90])))
     = [11, 12, 22, 25, 34, 64, 90]
   \<and> set (fr_sorted (last (sim_frames (simulate_bubble_sort [64, 34, 25, 12, 22, 11, 90]))))
     = {0 ..< 7}
   \<and> sim_comparisons (simulate_bubble_sort [64, 34, 25, 12, 22, 11, 90]) \<ge> 21
   \<and> sim_comparisons (simulate_bubble_sort [64, 34, 25, 12, 22, 11, 90]) =
       length (filter (\<lambda>f. fr_comparing f \<noteq> [])
                 (sim_frames (simulate_bubble_sort [64, 34, 25, 12, 22, 11, 90])))"
proof -
  have s: "set [0, 1, 2, 3, 4, 5, 6 :: nat] = {0 ..< 7}" by auto
  show ?thesis
    unfolding bubble_last_frame bubble_comparisons bubble_comparison_frames
    using s by simp
qed

end
